theory Spec2Isabelle
  imports Complex_Main
begin

section \<open>Tensors and the framework operations the notebooks call\<close>

text \<open>
  The notebooks compute on \<open>float32\<close> tensors of TensorFlow in eager mode. A \<open>float32\<close>
  value is a finite number, one of the two infinities, or NaN. The arithmetic on the
  infinities and on NaN is the one of IEEE 754 (\<open>inf - inf\<close> and \<open>inf * 0\<close> are NaN, NaN
  spreads, \<open>tanh\<close> of an infinity is \<open>1\<close> or \<open>- 1\<close>). On finite values the theory
  describes the arithmetic the code asks for, not its rounding: a finite value is a
  \<^typ>\<open>real\<close>, a finite result never overflows, and the sign of zero is left out.
\<close>

datatype f32 = Finite real | PosInf | NegInf | NaN

instantiation f32 :: "{one, times, comm_monoid_add}"
begin

definition zero_f32 :: f32 where
  "zero_f32 = Finite 0"

definition one_f32 :: f32 where
  "one_f32 = Finite 1"

definition plus_f32 :: "f32 \<Rightarrow> f32 \<Rightarrow> f32" where
  "plus_f32 a b =
     (case a of
        NaN \<Rightarrow> NaN
      | PosInf \<Rightarrow> (case b of NaN \<Rightarrow> NaN | NegInf \<Rightarrow> NaN | _ \<Rightarrow> PosInf)
      | NegInf \<Rightarrow> (case b of NaN \<Rightarrow> NaN | PosInf \<Rightarrow> NaN | _ \<Rightarrow> NegInf)
      | Finite x \<Rightarrow> (case b of Finite y \<Rightarrow> Finite (x + y) | _ \<Rightarrow> b))"

definition times_f32 :: "f32 \<Rightarrow> f32 \<Rightarrow> f32" where
  "times_f32 a b =
     (case a of
        NaN \<Rightarrow> NaN
      | Finite x \<Rightarrow>
          (case b of
             NaN \<Rightarrow> NaN
           | Finite y \<Rightarrow> Finite (x * y)
           | PosInf \<Rightarrow> if x = 0 then NaN else if 0 < x then PosInf else NegInf
           | NegInf \<Rightarrow> if x = 0 then NaN else if 0 < x then NegInf else PosInf)
      | PosInf \<Rightarrow>
          (case b of
             NaN \<Rightarrow> NaN
           | Finite y \<Rightarrow> if y = 0 then NaN else if 0 < y then PosInf else NegInf
           | PosInf \<Rightarrow> PosInf
           | NegInf \<Rightarrow> NegInf)
      | NegInf \<Rightarrow>
          (case b of
             NaN \<Rightarrow> NaN
           | Finite y \<Rightarrow> if y = 0 then NaN else if 0 < y then NegInf else PosInf
           | PosInf \<Rightarrow> NegInf
           | NegInf \<Rightarrow> PosInf))"

instance
proof
  fix a b c :: f32
  show "a + b + c = a + (b + c)"
    by (cases a; cases b; cases c) (simp_all add: plus_f32_def)
  show "a + b = b + a"
    by (cases a; cases b) (simp_all add: plus_f32_def)
  show "0 + a = a"
    by (cases a) (simp_all add: plus_f32_def zero_f32_def)
qed

end

instance f32 :: numeral ..

definition f32_tanh :: "f32 \<Rightarrow> f32" where
  "f32_tanh a =
     (case a of
        Finite x \<Rightarrow> Finite (tanh x)
      | PosInf \<Rightarrow> Finite 1
      | NegInf \<Rightarrow> Finite (- 1)
      | NaN \<Rightarrow> NaN)"

definition finite_f32 :: "f32 \<Rightarrow> bool" where
  "finite_f32 a = (case a of Finite x \<Rightarrow> True | _ \<Rightarrow> False)"

text \<open>
  A tensor carries its shape next to its entries, because an empty dimension would
  otherwise hide the others (\<open>data.shape[1]\<close> of a batch of no sequences is still the
  number of time steps).

  A rank-2 tensor has \<open>dim0\<close> rows of \<open>dim1\<close> entries; a rank-3 tensor is a batch of
  \<open>batch\<close> sequences of \<open>steps\<close> vectors of \<open>feat\<close> entries; a rank-1 tensor is a list.
\<close>

record tensor2 =
  dim0 :: nat
  dim1 :: nat
  rows :: "f32 list list"

record tensor3 =
  batch :: nat
  steps :: nat
  feat :: nat
  seqs :: "f32 list list list"

definition wf2 :: "tensor2 \<Rightarrow> bool" where
  "wf2 x \<longleftrightarrow> length (rows x) = dim0 x \<and> list_all (\<lambda>r. length r = dim1 x) (rows x)"

definition wf3 :: "tensor3 \<Rightarrow> bool" where
  "wf3 d \<longleftrightarrow> length (seqs d) = batch d \<and>
     list_all (\<lambda>s. length s = steps d \<and> list_all (\<lambda>v. length v = feat d) s) (seqs d)"

text \<open>Tensors all of whose entries are finite.\<close>

definition finite2 :: "tensor2 \<Rightarrow> bool" where
  "finite2 x \<longleftrightarrow> list_all (list_all finite_f32) (rows x)"

definition finite3 :: "tensor3 \<Rightarrow> bool" where
  "finite3 d \<longleftrightarrow> list_all (list_all (list_all finite_f32)) (seqs d)"

text \<open>
  The exceptions the modelled calls can raise: \<open>ValueError\<close> is Keras' check of a
  layer's input against the shape the layer was built for, \<open>InvalidArgumentError\<close> is
  an operation's own shape check, \<open>AttributeError\<close> is Python's failed attribute lookup.
\<close>

datatype error = ValueError | InvalidArgumentError | AttributeError

text \<open>\<open>tf.zeros((b, n))\<close>\<close>

definition tf_zeros :: "nat \<Rightarrow> nat \<Rightarrow> tensor2" where
  "tf_zeros b n = \<lparr>dim0 = b, dim1 = n, rows = replicate b (replicate n 0)\<rparr>"

text \<open>\<open>data[:, t, :]\<close>; an index past the time dimension is refused by the slice.\<close>

definition slice_step :: "tensor3 \<Rightarrow> nat \<Rightarrow> error + tensor2" where
  "slice_step d t =
     (if t < steps d
      then Inr \<lparr>dim0 = batch d, dim1 = feat d, rows = map (\<lambda>s. s ! t) (seqs d)\<rparr>
      else Inl InvalidArgumentError)"

text \<open>\<open>tf.matmul\<close> of a \<open>(b, n)\<close> tensor with an \<open>(n, m)\<close> tensor.\<close>

definition dot :: "f32 list \<Rightarrow> f32 list \<Rightarrow> f32" where
  "dot u v = sum_list (map2 (*) u v)"

definition column :: "tensor2 \<Rightarrow> nat \<Rightarrow> f32 list" where
  "column k j = map (\<lambda>r. r ! j) (rows k)"

definition tf_matmul :: "tensor2 \<Rightarrow> tensor2 \<Rightarrow> error + tensor2" where
  "tf_matmul x k =
     (if dim1 x = dim0 k
      then Inr \<lparr>dim0 = dim0 x, dim1 = dim1 k,
                rows = map (\<lambda>r. map (\<lambda>j. dot r (column k j)) [0..<dim1 k]) (rows x)\<rparr>
      else Inl InvalidArgumentError)"

text \<open>
  \<open>+\<close> on tensors broadcasts: two dimensions are compatible when they are equal or
  one of them is 1, and the dimension of size 1 is then repeated. A rank-1 operand is
  first read as one row.
\<close>

definition compatible :: "nat \<Rightarrow> nat \<Rightarrow> bool" where
  "compatible a b \<longleftrightarrow> a = b \<or> a = 1 \<or> b = 1"

definition broadcast_dim :: "nat \<Rightarrow> nat \<Rightarrow> nat" where
  "broadcast_dim a b = (if a = 1 then b else a)"

definition stretch :: "nat \<Rightarrow> 'a list \<Rightarrow> 'a list" where
  "stretch n xs = (if length xs = n then xs else replicate n (hd xs))"

definition tf_add :: "tensor2 \<Rightarrow> tensor2 \<Rightarrow> error + tensor2" where
  "tf_add x y =
     (if compatible (dim0 x) (dim0 y) \<and> compatible (dim1 x) (dim1 y)
      then let b = broadcast_dim (dim0 x) (dim0 y); n = broadcast_dim (dim1 x) (dim1 y)
           in Inr \<lparr>dim0 = b, dim1 = n,
                   rows = map2 (\<lambda>r s. map2 (+) (stretch n r) (stretch n s))
                            (stretch b (rows x)) (stretch b (rows y))\<rparr>
      else Inl InvalidArgumentError)"

definition as_row :: "f32 list \<Rightarrow> tensor2" where
  "as_row v = \<lparr>dim0 = 1, dim1 = length v, rows = [v]\<rparr>"

text \<open>\<open>tf.nn.tanh\<close>\<close>

definition tf_tanh :: "tensor2 \<Rightarrow> tensor2" where
  "tf_tanh x = x\<lparr>rows := map (map f32_tanh) (rows x)\<rparr>"

section \<open>The layers of the recurrent-network notebook\<close>

text \<open>
  \<open>tf.keras.layers.Dense(units, use_bias=False)\<close> without activation, once Keras has
  built it: it holds a kernel of shape \<open>(last_dim, units)\<close>, refuses an input whose last
  dimension is not \<open>last_dim\<close>, and otherwise multiplies the input with the kernel.
\<close>

record Dense =
  Dense_units :: nat
  kernel :: tensor2

definition Dense_call :: "Dense \<Rightarrow> tensor2 \<Rightarrow> error + tensor2" where
  "Dense_call layer inputs =
     (if dim1 inputs \<noteq> dim0 (kernel layer) then Inl ValueError
      else tf_matmul inputs (kernel layer))"

record CustomSimpleRNNCell =
  units :: nat
  dense_hstate :: Dense
  dense_input :: Dense
  bias :: "f32 list"
  state_size :: nat

text \<open>
  \<open>CustomSimpleRNNCell.call\<close>:
  \<open>x_sum = self.dense_input(input_t) + self.dense_hstate(state) + self.bias\<close>, then
  \<open>tf.nn.tanh(x_sum)\<close>. The \<open>training\<close> argument is accepted and not used.
\<close>

definition CustomSimpleRNNCell_call ::
  "CustomSimpleRNNCell \<Rightarrow> tensor2 \<Rightarrow> tensor2 \<Rightarrow> bool \<Rightarrow> error + tensor2" where
  "CustomSimpleRNNCell_call self input_t state training =
     (case Dense_call (dense_input self) input_t of
        Inl e \<Rightarrow> Inl e
      | Inr xw \<Rightarrow>
          (case Dense_call (dense_hstate self) state of
             Inl e \<Rightarrow> Inl e
           | Inr hw \<Rightarrow>
               (case tf_add xw hw of
                  Inl e \<Rightarrow> Inl e
                | Inr s \<Rightarrow>
                    (case tf_add s (as_row (bias self)) of
                       Inl e \<Rightarrow> Inl e
                     | Inr x_sum \<Rightarrow> Inr (tf_tanh x_sum)))))"

text \<open>
  What the constructor of the cell and the first call establish for input vectors of
  length \<open>d\<close>: both kernels have \<open>units\<close> columns, the input kernel has \<open>d\<close> rows, the state
  kernel has \<open>units\<close> rows, and the bias has \<open>units\<close> entries.
\<close>

definition built_for :: "CustomSimpleRNNCell \<Rightarrow> nat \<Rightarrow> bool" where
  "built_for self d \<longleftrightarrow>
     wf2 (kernel (dense_input self)) \<and> wf2 (kernel (dense_hstate self)) \<and>
     dim0 (kernel (dense_input self)) = d \<and> dim1 (kernel (dense_input self)) = units self \<and>
     dim0 (kernel (dense_hstate self)) = units self \<and>
     dim1 (kernel (dense_hstate self)) = units self \<and>
     Dense_units (dense_input self) = units self \<and>
     Dense_units (dense_hstate self) = units self \<and>
     length (bias self) = units self \<and> state_size self = units self"

text \<open>
  \<open>tf.TensorArray(dtype, size=n)\<close> is an array of \<open>n\<close> slots, none written yet. The class
  offers \<open>write\<close>, \<open>read\<close>, \<open>stack\<close> and others, and no \<open>append\<close>: looking the
  attribute up raises \<open>AttributeError\<close>, whatever the array holds and whatever the
  argument would have been.
\<close>

type_synonym TensorArray = "tensor2 option list"

definition TensorArray_new :: "nat \<Rightarrow> TensorArray" where
  "TensorArray_new n = replicate n None"

definition TensorArray_append :: "TensorArray \<Rightarrow> tensor2 \<Rightarrow> error + TensorArray" where
  "TensorArray_append hidden_states state = Inl AttributeError"

text \<open>
  \<open>tf.transpose(hidden_states.stack(), [1,0,2])\<close>. Stacking an array of no slots gives
  a rank-1 tensor of no entries, which a permutation of three axes does not fit.
  An array none of whose slots was written knows no element shape and has nothing to
  stack. Otherwise the element shape is the one of the written elements, the slots
  never written are filled with zeros of that shape, the stack is ordered by time and
  the transposition puts the batch first.
\<close>

definition stack_transposed :: "TensorArray \<Rightarrow> error + tensor3" where
  "stack_transposed hidden_states =
     (if hidden_states = [] then Inl InvalidArgumentError
      else (case List.map_filter (\<lambda>slot. slot) hidden_states of
              [] \<Rightarrow> Inl ValueError
            | w # _ \<Rightarrow>
                let ts = map (\<lambda>slot. case slot of
                                        None \<Rightarrow> tf_zeros (dim0 w) (dim1 w)
                                      | Some s \<Rightarrow> s) hidden_states
                in Inr \<lparr>batch = dim0 w, steps = length ts, feat = dim1 w,
                        seqs = map (\<lambda>b. map (\<lambda>s. rows s ! b) ts) [0..<dim0 w]\<rparr>))"

record RNNWrapper =
  return_sequences :: bool
  cell :: CustomSimpleRNNCell

datatype rnn_output = LastState tensor2 | AllStates tensor3

text \<open>
  The body of \<open>for t in tf.range(length)\<close> in \<open>RNNWrapper.call\<close>, over the time steps
  still to come, with the local variables \<open>state\<close> and \<open>hidden_states\<close> passed along.
\<close>

fun RNNWrapper_loop ::
  "RNNWrapper \<Rightarrow> tensor3 \<Rightarrow> bool \<Rightarrow> nat list \<Rightarrow> tensor2 \<Rightarrow> TensorArray
     \<Rightarrow> error + tensor2 \<times> TensorArray" where
  "RNNWrapper_loop self data training [] state hidden_states = Inr (state, hidden_states)"
| "RNNWrapper_loop self data training (t # ts) state hidden_states =
     (case slice_step data t of
        Inl e \<Rightarrow> Inl e
      | Inr input_t \<Rightarrow>
          (case CustomSimpleRNNCell_call (cell self) input_t state training of
             Inl e \<Rightarrow> Inl e
           | Inr state' \<Rightarrow>
               if return_sequences self
               then (case TensorArray_append hidden_states state' of
                       Inl e \<Rightarrow> Inl e
                     | Inr hidden_states' \<Rightarrow>
                         RNNWrapper_loop self data training ts state' hidden_states')
               else RNNWrapper_loop self data training ts state' hidden_states))"

text \<open>\<open>RNNWrapper.call(self, data, training=False)\<close>\<close>

definition RNNWrapper_call :: "RNNWrapper \<Rightarrow> tensor3 \<Rightarrow> bool \<Rightarrow> error + rnn_output" where
  "RNNWrapper_call self data training =
     (let len = steps data;
          state = tf_zeros (batch data) (units (cell self));
          hidden_states = TensorArray_new len
      in case RNNWrapper_loop self data training [0..<len] state hidden_states of
           Inl e \<Rightarrow> Inl e
         | Inr (state', hidden_states') \<Rightarrow>
             if return_sequences self
             then (case stack_transposed hidden_states' of
                     Inl e \<Rightarrow> Inl e
                   | Inr outputs \<Rightarrow> Inr (AllStates outputs))
             else Inr (LastState state'))"

text \<open>
  A call on the layer object. \<open>call\<close> reads \<open>self.return_sequences\<close> and \<open>self.cell\<close>,
  and neither it nor the cell assigns to an attribute or a variable of the layer, so
  the object after the call is the object before it.
\<close>

definition RNNWrapper_invoke ::
  "RNNWrapper \<Rightarrow> tensor3 \<Rightarrow> bool \<Rightarrow> (error + rnn_output) \<times> RNNWrapper" where
  "RNNWrapper_invoke self data training = (RNNWrapper_call self data training, self)"

text \<open>
  The value of the local variable \<open>state\<close> of \<open>RNNWrapper.call\<close> once the loop has gone
  through its first \<open>n\<close> time steps.
\<close>

definition state_after :: "RNNWrapper \<Rightarrow> tensor3 \<Rightarrow> bool \<Rightarrow> nat \<Rightarrow> error + tensor2" where
  "state_after self data training n =
     (case RNNWrapper_loop self data training [0..<n]
             (tf_zeros (batch data) (units (cell self))) (TensorArray_new (steps data)) of
        Inl e \<Rightarrow> Inl e
      | Inr (state, hidden_states) \<Rightarrow> Inr state)"

subsection \<open>The sequence driver in the words of the specification\<close>

text \<open>
  The specification describes a driver that takes the input sequence, an initial state
  that defaults to the zero vector, and a flag; it applies the step function to the time
  steps in order and returns the last state or all of them.
\<close>

definition step_input :: "tensor3 \<Rightarrow> nat \<Rightarrow> tensor2" where
  "step_input d t = \<lparr>dim0 = batch d, dim1 = feat d, rows = map (\<lambda>s. s ! t) (seqs d)\<rparr>"

fun spec_states :: "CustomSimpleRNNCell \<Rightarrow> tensor2 \<Rightarrow> tensor2 list \<Rightarrow> error + tensor2 list" where
  "spec_states c s [] = Inr []"
| "spec_states c s (x # xs) =
     (case CustomSimpleRNNCell_call c x s False of
        Inl e \<Rightarrow> Inl e
      | Inr s' \<Rightarrow> (case spec_states c s' xs of Inl e \<Rightarrow> Inl e | Inr ss \<Rightarrow> Inr (s' # ss)))"

definition spec_driver ::
  "CustomSimpleRNNCell \<Rightarrow> tensor2 option \<Rightarrow> tensor3 \<Rightarrow> bool \<Rightarrow> error + rnn_output" where
  "spec_driver c initial_state d all_states =
     (let s0 = (case initial_state of None \<Rightarrow> tf_zeros (batch d) (units c) | Some s \<Rightarrow> s)
      in case spec_states c s0 (map (step_input d) [0..<steps d]) of
           Inl e \<Rightarrow> Inl e
         | Inr ss \<Rightarrow>
             if all_states
             then Inr (AllStates \<lparr>batch = batch d, steps = steps d, feat = units c,
                         seqs = map (\<lambda>b. map (\<lambda>s. rows s ! b) ss) [0..<batch d]\<rparr>)
             else Inr (LastState (last (s0 # ss))))"

subsection \<open>Inputs related to each other\<close>

text \<open>Two inputs of the same batch size and feature length agree on their first \<open>k\<close> steps.\<close>

definition agree_upto :: "nat \<Rightarrow> tensor3 \<Rightarrow> tensor3 \<Rightarrow> bool" where
  "agree_upto k d1 d2 \<longleftrightarrow>
     batch d1 = batch d2 \<and> feat d1 = feat d2 \<and> k \<le> steps d1 \<and> k \<le> steps d2 \<and>
     map (take k) (seqs d1) = map (take k) (seqs d2)"

text \<open>\<open>tf.concat([d1, d2], axis=0)\<close> for inputs of equal length and feature length.\<close>

definition concat_batch :: "tensor3 \<Rightarrow> tensor3 \<Rightarrow> tensor3" where
  "concat_batch d1 d2 =
     \<lparr>batch = batch d1 + batch d2, steps = steps d1, feat = feat d1, seqs = seqs d1 @ seqs d2\<rparr>"

definition concat_rows :: "tensor2 \<Rightarrow> tensor2 \<Rightarrow> tensor2" where
  "concat_rows a b = \<lparr>dim0 = dim0 a + dim0 b, dim1 = dim1 a, rows = rows a @ rows b\<rparr>"

text \<open>A cell for inputs of length \<open>d\<close> and states of length \<open>h\<close> whose weights and bias are 0.\<close>

definition zero_cell :: "nat \<Rightarrow> nat \<Rightarrow> CustomSimpleRNNCell" where
  "zero_cell d h =
     \<lparr>units = h,
      dense_hstate = \<lparr>Dense_units = h, kernel = tf_zeros h h\<rparr>,
      dense_input = \<lparr>Dense_units = h, kernel = tf_zeros d h\<rparr>,
      bias = replicate h 0, state_size = h\<rparr>"

subsection \<open>Sample values\<close>

definition demo_cell :: CustomSimpleRNNCell where
  "demo_cell =
     \<lparr>units = 2,
      dense_hstate = \<lparr>Dense_units = 2, kernel = \<lparr>dim0 = 2, dim1 = 2, rows = [[0, 1], [1, 0]]\<rparr>\<rparr>,
      dense_input =
        \<lparr>Dense_units = 2, kernel = \<lparr>dim0 = 3, dim1 = 2, rows = [[1, 0], [0, 1], [1, 1]]\<rparr>\<rparr>,
      bias = [0, 1], state_size = 2\<rparr>"

definition demo_data :: tensor3 where
  "demo_data = \<lparr>batch = 1, steps = 2, feat = 3, seqs = [[[1, 2, 3], [0, 1, 0]]]\<rparr>"

definition demo_longer :: tensor3 where
  "demo_longer = \<lparr>batch = 1, steps = 3, feat = 3, seqs = [[[1, 2, 3], [0, 1, 0], [5, 5, 5]]]\<rparr>"

definition demo_other :: tensor3 where
  "demo_other = \<lparr>batch = 2, steps = 2, feat = 3,
     seqs = [[[0, 0, 1], [1, 1, 1]], [[2, 0, 0], [0, 3, 0]]]\<rparr>"

definition demo_still :: tensor3 where
  "demo_still = \<lparr>batch = 1, steps = 1, feat = 3, seqs = [[[0, 0, 0]]]\<rparr>"

definition demo_state :: tensor2 where
  "demo_state = \<lparr>dim0 = 1, dim1 = 2, rows = [[0, 1]]\<rparr>"

section \<open>The layer composition of the subclassing notebook\<close>

text \<open>
  A layer as \<open>CompositeLayer.call\<close> uses it: called on the data with the training flag
  (\<open>layer(x, training)\<close>, here \<open>Some training\<close>) or without it (\<open>layer(x)\<close>, here \<open>None\<close>),
  it returns the new data or raises, and may change the state \<open>'s\<close> of the program
  either way. The type \<open>'e\<close> of exceptions is left open: a bare \<open>except:\<close> catches them all.
\<close>

type_synonym ('a, 'e, 's) layer = "'a \<Rightarrow> bool option \<Rightarrow> 's \<Rightarrow> ('e + 'a) \<times> 's"

record ('a, 'e, 's) CompositeLayer =
  layer_list :: "('a, 'e, 's) layer list"

text \<open>The loop \<open>for layer in self.layer_list\<close> with its \<open>try\<close> and \<open>except\<close>.\<close>

fun CompositeLayer_loop ::
  "('a, 'e, 's) layer list \<Rightarrow> 'a \<Rightarrow> bool \<Rightarrow> 's \<Rightarrow> ('e + 'a) \<times> 's" where
  "CompositeLayer_loop [] x training \<sigma> = (Inr x, \<sigma>)"
| "CompositeLayer_loop (layer # rest) x training \<sigma> =
     (case layer x (Some training) \<sigma> of
        (Inr x', \<sigma>') \<Rightarrow> CompositeLayer_loop rest x' training \<sigma>'
      | (Inl e, \<sigma>') \<Rightarrow>
          (case layer x None \<sigma>' of
             (Inr x', \<sigma>'') \<Rightarrow> CompositeLayer_loop rest x' training \<sigma>''
           | (Inl e', \<sigma>'') \<Rightarrow> (Inl e', \<sigma>'')))"

definition CompositeLayer_call ::
  "('a, 'e, 's) CompositeLayer \<Rightarrow> 'a \<Rightarrow> bool \<Rightarrow> 's \<Rightarrow> ('e + 'a) \<times> 's" where
  "CompositeLayer_call self x training \<sigma> = CompositeLayer_loop (layer_list self) x training \<sigma>"

text \<open>
  Sample layers over integers that log each invocation in the state: one that takes the
  flag and raises when it is set, one that does not take the flag, one that always raises.
\<close>

datatype invocation = WithFlag string | WithoutFlag string

datatype sample_error = TypeError | Failure string

definition log_call :: "string \<Rightarrow> bool option \<Rightarrow> invocation list \<Rightarrow> invocation list" where
  "log_call name flag \<sigma> =
     \<sigma> @ [case flag of None \<Rightarrow> WithoutFlag name | Some _ \<Rightarrow> WithFlag name]"

definition moody_layer :: "(int, sample_error, invocation list) layer" where
  "moody_layer x flag \<sigma> =
     (if flag = Some True then Inl (Failure ''training'') else Inr (x + 1),
      log_call ''moody'' flag \<sigma>)"

definition plain_layer :: "(int, sample_error, invocation list) layer" where
  "plain_layer x flag \<sigma> =
     (case flag of Some _ \<Rightarrow> Inl TypeError | None \<Rightarrow> Inr (2 * x), log_call ''plain'' flag \<sigma>)"

definition broken_layer :: "(int, sample_error, invocation list) layer" where
  "broken_layer x flag \<sigma> =
     (case flag of Some _ \<Rightarrow> Inl (Failure ''first'') | None \<Rightarrow> Inl (Failure ''second''),
      log_call ''broken'' flag \<sigma>)"

section \<open>Facts about float32 values\<close>

lemma Finite_add: "Finite x + Finite y = Finite (x + y)"
  by (simp add: plus_f32_def)

lemma Finite_mult: "Finite x * Finite y = Finite (x * y)"
  by (simp add: times_f32_def)

lemma Finite_tanh: "f32_tanh (Finite x) = Finite (tanh x)"
  by (simp add: f32_tanh_def)

lemma Finite_numeral: "(numeral n :: f32) = Finite (numeral n)"
proof (induction n rule: num.induct)
  case One
  show ?case by (simp add: one_f32_def)
next
  case (Bit0 n)
  have "(numeral (num.Bit0 n) :: f32) = numeral n + numeral n"
    by (rule numeral_Bit0)
  also have "\<dots> = Finite (numeral n + numeral n)"
    by (simp only: Bit0 Finite_add)
  also have "\<dots> = Finite (numeral (num.Bit0 n))"
    by (simp only: numeral_Bit0)
  finally show ?case .
next
  case (Bit1 n)
  have "(numeral (num.Bit1 n) :: f32) = numeral n + numeral n + 1"
    by (rule numeral_Bit1)
  also have "\<dots> = Finite (numeral n + numeral n + 1)"
    by (simp only: Bit1 Finite_add one_f32_def)
  also have "\<dots> = Finite (numeral (num.Bit1 n))"
    by (simp only: numeral_Bit1)
  finally show ?case .
qed

lemmas f32_eval = zero_f32_def one_f32_def Finite_numeral Finite_add Finite_mult Finite_tanh

lemma finite_mult_zero: "finite_f32 a \<Longrightarrow> a * 0 = 0"
  by (cases a) (simp_all add: finite_f32_def times_f32_def zero_f32_def)

lemma f32_tanh_zero: "f32_tanh 0 = 0"
  by (simp add: f32_tanh_def zero_f32_def)

section \<open>Facts about the tensor operations\<close>

lemma dot_sum: "length u = length v \<Longrightarrow> dot u v = (\<Sum>k<length u. u ! k * v ! k)"
  by (simp add: dot_def sum_list_sum_nth atLeast0LessThan)

lemma length_column: "length (column k j) = length (rows k)"
  by (simp add: column_def)

lemma nth_column: "i < length (rows k) \<Longrightarrow> column k j ! i = rows k ! i ! j"
  by (simp add: column_def)

lemma stretch_same: "length xs = n \<Longrightarrow> stretch n xs = xs"
  by (simp add: stretch_def)

lemma stretch_single: "stretch n [x] = replicate n x"
  by (cases n; cases "n - 1") (auto simp: stretch_def)

lemma wf2_rows: "wf2 x \<Longrightarrow> length (rows x) = dim0 x"
  by (simp add: wf2_def)

lemma wf2_row: "wf2 x \<Longrightarrow> r \<in> set (rows x) \<Longrightarrow> length r = dim1 x"
  by (simp add: wf2_def list_all_iff)

lemma wf2_nth: "wf2 x \<Longrightarrow> i < dim0 x \<Longrightarrow> length (rows x ! i) = dim1 x"
  by (simp add: wf2_def list_all_length)

lemma map2_replicate_right:
  "length xs = n \<Longrightarrow> map2 f xs (replicate n b) = map (\<lambda>r. f r b) xs"
  by (induction xs arbitrary: n) auto

lemma tf_matmul_ok:
  "dim1 x = dim0 k \<Longrightarrow>
   tf_matmul x k = Inr \<lparr>dim0 = dim0 x, dim1 = dim1 k,
      rows = map (\<lambda>r. map (\<lambda>j. dot r (column k j)) [0..<dim1 k]) (rows x)\<rparr>"
  by (simp add: tf_matmul_def)

lemma map2_cong_set:
  "(\<And>a b. a \<in> set xs \<Longrightarrow> b \<in> set ys \<Longrightarrow> f a b = g a b) \<Longrightarrow> map2 f xs ys = map2 g xs ys"
  by (induction xs ys rule: list_induct2') auto

lemma tf_add_same:
  assumes "wf2 x" "wf2 y" "dim0 x = dim0 y" "dim1 x = dim1 y"
  shows "tf_add x y = Inr \<lparr>dim0 = dim0 x, dim1 = dim1 x,
            rows = map2 (map2 (+)) (rows x) (rows y)\<rparr>"
proof -
  have "map2 (\<lambda>r s. map2 (+) (stretch (dim1 x) r) (stretch (dim1 x) s)) (rows x) (rows y)
        = map2 (map2 (+)) (rows x) (rows y)"
    using assms by (intro map2_cong_set) (simp add: stretch_same wf2_row)
  then show ?thesis
    using assms by (simp add: tf_add_def compatible_def broadcast_dim_def stretch_same wf2_rows Let_def)
qed

lemma tf_add_row:
  assumes "wf2 x" "dim1 x = length b"
  shows "tf_add x (as_row b) = Inr \<lparr>dim0 = dim0 x, dim1 = dim1 x,
            rows = map (\<lambda>r. map2 (+) r b) (rows x)\<rparr>"
proof -
  have "map2 (\<lambda>r s. map2 (+) (stretch (dim1 x) r) (stretch (dim1 x) s)) (rows x)
           (replicate (dim0 x) b)
        = map (\<lambda>r. map2 (+) (stretch (dim1 x) r) (stretch (dim1 x) b)) (rows x)"
    using assms by (simp add: map2_replicate_right wf2_rows)
  also have "\<dots> = map (\<lambda>r. map2 (+) r b) (rows x)"
    using assms by (intro map_cong refl) (simp add: stretch_same wf2_row)
  finally show ?thesis
    using assms
    by (simp add: tf_add_def as_row_def compatible_def broadcast_dim_def stretch_same
        stretch_single wf2_rows Let_def)
qed

lemma wf2_matmul:
  "wf2 x \<Longrightarrow> wf2 \<lparr>dim0 = dim0 x, dim1 = n,
      rows = map (\<lambda>r. map (f r) [0..<n]) (rows x)\<rparr>"
  by (simp add: wf2_def list_all_iff)

lemma wf2_add:
  "wf2 a \<Longrightarrow> wf2 b \<Longrightarrow> dim0 a = dim0 b \<Longrightarrow> dim1 a = dim1 b \<Longrightarrow>
   wf2 \<lparr>dim0 = dim0 a, dim1 = dim1 a, rows = map2 (map2 (+)) (rows a) (rows b)\<rparr>"
  by (simp add: wf2_def list_all_length)

lemma Dense_call_ok:
  "dim1 x = dim0 (kernel layer) \<Longrightarrow>
   Dense_call layer x = Inr \<lparr>dim0 = dim0 x, dim1 = dim1 (kernel layer),
      rows = map (\<lambda>r. map (\<lambda>j. dot r (column (kernel layer) j)) [0..<dim1 (kernel layer)]) (rows x)\<rparr>"
  by (simp add: Dense_call_def tf_matmul_ok)

lemma cell_call_rows:
  assumes b: "built_for self d"
    and x: "wf2 x" "dim1 x = d"
    and h: "wf2 h" "dim1 h = units self" "dim0 h = dim0 x"
  shows "CustomSimpleRNNCell_call self x h training =
     Inr \<lparr>dim0 = dim0 x, dim1 = units self,
          rows = map (map f32_tanh) (map (\<lambda>r. map2 (+) r (bias self))
            (map2 (map2 (+))
              (map (\<lambda>r. map (\<lambda>j. dot r (column (kernel (dense_input self)) j)) [0..<units self]) (rows x))
              (map (\<lambda>r. map (\<lambda>j. dot r (column (kernel (dense_hstate self)) j)) [0..<units self]) (rows h))))\<rparr>"
proof -
  let ?xw = "\<lparr>dim0 = dim0 x, dim1 = units self,
      rows = map (\<lambda>r. map (\<lambda>j. dot r (column (kernel (dense_input self)) j)) [0..<units self]) (rows x)\<rparr>"
  let ?hw = "\<lparr>dim0 = dim0 h, dim1 = units self,
      rows = map (\<lambda>r. map (\<lambda>j. dot r (column (kernel (dense_hstate self)) j)) [0..<units self]) (rows h)\<rparr>"
  have 1: "Dense_call (dense_input self) x = Inr ?xw"
    using b x by (simp add: Dense_call_ok built_for_def)
  have 2: "Dense_call (dense_hstate self) h = Inr ?hw"
    using b h by (simp add: Dense_call_ok built_for_def)
  have wx: "wf2 ?xw" using x(1) by (rule wf2_matmul)
  have wh: "wf2 ?hw" using h(1) by (rule wf2_matmul)
  let ?s = "\<lparr>dim0 = dim0 x, dim1 = units self, rows = map2 (map2 (+)) (rows ?xw) (rows ?hw)\<rparr>"
  have 3: "tf_add ?xw ?hw = Inr ?s"
    using tf_add_same [OF wx wh] h by simp
  have ws: "wf2 ?s"
    using wf2_add [OF wx wh] h by simp
  have 4: "tf_add ?s (as_row (bias self)) =
     Inr \<lparr>dim0 = dim0 x, dim1 = units self, rows = map (\<lambda>r. map2 (+) r (bias self)) (rows ?s)\<rparr>"
    using tf_add_row [OF ws, of "bias self"] b by (simp add: built_for_def)
  show ?thesis
    unfolding CustomSimpleRNNCell_call_def 1 2 sum.case 3 4
    by (simp add: tf_tanh_def)
qed

section \<open>The recurrent step function\<close>

text \<open>
  Claim C1. For a built cell with input kernel \<open>W1\<close> of shape \<open>d \<times> units\<close>, state kernel
  \<open>W2\<close> of shape \<open>units \<times> units\<close> and bias \<open>b\<close> of length \<open>units\<close>, the step function
  applied to inputs \<open>x\<close> of length \<open>d\<close> and states \<open>h\<close> of length \<open>units\<close> (one row per
  batch element) returns, for each batch element, the vector of length \<open>units\<close> whose
  entry \<open>j\<close> is \<open>tanh\<close> of entry \<open>j\<close> of \<open>x \<cdot> W1 + h \<cdot> W2 + b\<close>.
\<close>

theorem cell_call_formula:
  assumes b: "built_for self d"
    and x: "wf2 x" "dim1 x = d"
    and h: "wf2 h" "dim1 h = units self" "dim0 h = dim0 x"
  shows "\<exists>y. CustomSimpleRNNCell_call self x h training = Inr y \<and>
           wf2 y \<and> dim0 y = dim0 x \<and> dim1 y = units self \<and>
           (\<forall>i<dim0 x. \<forall>j<units self.
              rows y ! i ! j =
                f32_tanh ((\<Sum>k<d. rows x ! i ! k * rows (kernel (dense_input self)) ! k ! j)
                    + (\<Sum>k<units self. rows h ! i ! k * rows (kernel (dense_hstate self)) ! k ! j)
                    + bias self ! j))"
proof -
  let ?W1 = "kernel (dense_input self)" and ?W2 = "kernel (dense_hstate self)"
  let ?y = "\<lparr>dim0 = dim0 x, dim1 = units self,
          rows = map (map f32_tanh) (map (\<lambda>r. map2 (+) r (bias self))
            (map2 (map2 (+))
              (map (\<lambda>r. map (\<lambda>j. dot r (column ?W1 j)) [0..<units self]) (rows x))
              (map (\<lambda>r. map (\<lambda>j. dot r (column ?W2 j)) [0..<units self]) (rows h))))\<rparr>"
  have call: "CustomSimpleRNNCell_call self x h training = Inr ?y"
    using assms by (rule cell_call_rows)
  have lx: "length (rows x) = dim0 x" and lh: "length (rows h) = dim0 x"
    using x h by (simp_all add: wf2_rows)
  have lb: "length (bias self) = units self"
    and l1: "length (rows ?W1) = d" and l2: "length (rows ?W2) = units self"
    using b by (simp_all add: built_for_def wf2_def)
  have wf: "wf2 ?y"
    using lx lh lb by (simp add: wf2_def list_all_length)
  have entry: "rows ?y ! i ! j =
                f32_tanh ((\<Sum>k<d. rows x ! i ! k * rows ?W1 ! k ! j)
                    + (\<Sum>k<units self. rows h ! i ! k * rows ?W2 ! k ! j)
                    + bias self ! j)" if i: "i < dim0 x" and j: "j < units self" for i j
  proof -
    have rx: "length (rows x ! i) = d" using x i by (simp add: wf2_nth)
    have rh: "length (rows h ! i) = units self" using h i by (simp add: wf2_nth)
    have d1: "dot (rows x ! i) (column ?W1 j) = (\<Sum>k<d. rows x ! i ! k * rows ?W1 ! k ! j)"
      using rx l1 by (simp add: dot_sum length_column nth_column)
    have d2: "dot (rows h ! i) (column ?W2 j) = (\<Sum>k<units self. rows h ! i ! k * rows ?W2 ! k ! j)"
      using rh l2 by (simp add: dot_sum length_column nth_column)
    show ?thesis
      using i j lx lh lb by (simp add: d1 d2)
  qed
  show ?thesis
    using call wf entry by (intro exI [of _ ?y]) simp
qed

theorem cell_call_formula_witness:
  "built_for demo_cell 3 \<and>
   (\<exists>y. CustomSimpleRNNCell_call demo_cell
           \<lparr>dim0 = 1, dim1 = 3, rows = [[1, 2, 3]]\<rparr> \<lparr>dim0 = 1, dim1 = 2, rows = [[4, 5]]\<rparr> False = Inr y \<and>
        rows y ! 0 ! 0 = f32_tanh 9 \<and> rows y ! 0 ! 1 = f32_tanh 10)"
proof -
  have b: "built_for demo_cell 3"
    by (simp add: built_for_def demo_cell_def wf2_def)
  have x: "wf2 \<lparr>dim0 = 1, dim1 = 3, rows = [[1, 2, 3]]\<rparr>" and h: "wf2 \<lparr>dim0 = 1, dim1 = 2, rows = [[4, 5]]\<rparr>"
    by (simp_all add: wf2_def)
  from cell_call_formula [OF b x _ h, of False]
  obtain y where y: "CustomSimpleRNNCell_call demo_cell
           \<lparr>dim0 = 1, dim1 = 3, rows = [[1, 2, 3]]\<rparr> \<lparr>dim0 = 1, dim1 = 2, rows = [[4, 5]]\<rparr> False = Inr y"
     and e: "\<forall>i<1. \<forall>j<2. rows y ! i ! j =
                f32_tanh ((\<Sum>k<3. [[1, 2, 3]] ! i ! k * [[1, 0], [0, 1], [1, 1]] ! k ! j)
                    + (\<Sum>k<2. [[4, 5]] ! i ! k * [[0, 1], [1, 0]] ! k ! j)
                    + [0, 1] ! j)"
    by (auto simp: demo_cell_def)
  from e have "rows y ! 0 ! 0 = f32_tanh 9" "rows y ! 0 ! 1 = f32_tanh 10"
    by (simp_all add: lessThan_Suc eval_nat_numeral f32_eval)
  with b y show ?thesis by blast
qed

section \<open>Evaluation on sample values\<close>

lemmas eval_defs = RNNWrapper_call_def Let_def slice_step_def CustomSimpleRNNCell_call_def
  Dense_call_def tf_matmul_def tf_add_def as_row_def tf_tanh_def tf_zeros_def compatible_def
  broadcast_dim_def stretch_def dot_def column_def TensorArray_new_def TensorArray_append_def
  stack_transposed_def upt_rec [of _ "numeral _"] upt_rec [of _ "Suc _"] eval_nat_numeral
  f32_eval

section \<open>Shape errors of the step function\<close>

lemma tf_add_dims:
  "compatible (dim0 a) (dim0 b) \<Longrightarrow> dim1 a = dim1 b \<Longrightarrow>
   \<exists>s. tf_add a b = Inr s \<and> dim0 s = broadcast_dim (dim0 a) (dim0 b) \<and> dim1 s = dim1 a"
  by (simp add: tf_add_def compatible_def broadcast_dim_def Let_def)

lemma tf_add_row_dims:
  "dim1 s = length v \<Longrightarrow>
   \<exists>y. tf_add s (as_row v) = Inr y \<and> dim0 y = dim0 s \<and> dim1 y = dim1 s"
  by (simp add: tf_add_def as_row_def compatible_def broadcast_dim_def Let_def)

text \<open>
  Claim C4, as stated: every call of the step function whose input, state and weight
  matrices have mismatched dimensions fails with a shape error, and no result is
  produced by broadcasting. It is not so for the batch dimension: an input of two rows
  and a state of one row do not match, and the call returns a result in which the one
  state row has been used for both input rows. The notebook's first loop relies on it
  (\<open>state = tf.zeros((1, hidden_dim))\<close> against a batch of two).
\<close>

theorem batch_of_one_broadcast:
  "dim0 \<lparr>dim0 = 2, dim1 = 3, rows = [[1, 2, 3], [0, 1, 0]]\<rparr>
     \<noteq> dim0 \<lparr>dim0 = 1, dim1 = 2, rows = [[4, 5]]\<rparr> \<and>
   CustomSimpleRNNCell_call demo_cell
     \<lparr>dim0 = 2, dim1 = 3, rows = [[1, 2, 3], [0, 1, 0]]\<rparr>
     \<lparr>dim0 = 1, dim1 = 2, rows = [[4, 5]]\<rparr> False
     = Inr \<lparr>dim0 = 2, dim1 = 2,
          rows = [[f32_tanh 9, f32_tanh 10], [f32_tanh 5, f32_tanh 6]]\<rparr>"
  by (simp add: eval_defs demo_cell_def)

text \<open>
  Claim C4, amended: a call on a built cell whose input length differs from the row
  count of the input kernel, or whose state length differs from the row count of the
  state kernel, fails with the \<open>ValueError\<close> of the layer's input check; if the lengths fit and
  the two batch sizes differ and neither is 1, the sum fails with
  \<open>InvalidArgumentError\<close>; in every other case, matching dimensions among them, no
  error is raised, and a batch of size 1 is repeated to the size of the other.
\<close>

theorem cell_call_shape_errors:
  assumes "built_for self d"
  shows "(dim1 x \<noteq> d \<or> dim1 h \<noteq> units self \<longrightarrow>
            CustomSimpleRNNCell_call self x h training = Inl ValueError) \<and>
         (dim1 x = d \<and> dim1 h = units self \<and> \<not> compatible (dim0 x) (dim0 h) \<longrightarrow>
            CustomSimpleRNNCell_call self x h training = Inl InvalidArgumentError) \<and>
         (dim1 x = d \<and> dim1 h = units self \<and> compatible (dim0 x) (dim0 h) \<longrightarrow>
            (\<exists>y. CustomSimpleRNNCell_call self x h training = Inr y \<and>
                 dim0 y = broadcast_dim (dim0 x) (dim0 h) \<and> dim1 y = units self))"
proof (intro conjI impI)
  assume "dim1 x \<noteq> d \<or> dim1 h \<noteq> units self"
  with assms show "CustomSimpleRNNCell_call self x h training = Inl ValueError"
    by (auto simp: CustomSimpleRNNCell_call_def Dense_call_def built_for_def tf_matmul_def)
next
  assume "dim1 x = d \<and> dim1 h = units self \<and> \<not> compatible (dim0 x) (dim0 h)"
  with assms show "CustomSimpleRNNCell_call self x h training = Inl InvalidArgumentError"
    by (simp add: CustomSimpleRNNCell_call_def Dense_call_def built_for_def tf_matmul_def
        tf_add_def)
next
  assume a: "dim1 x = d \<and> dim1 h = units self \<and> compatible (dim0 x) (dim0 h)"
  let ?xw = "\<lparr>dim0 = dim0 x, dim1 = units self,
      rows = map (\<lambda>r. map (\<lambda>j. dot r (column (kernel (dense_input self)) j)) [0..<units self]) (rows x)\<rparr>"
  let ?hw = "\<lparr>dim0 = dim0 h, dim1 = units self,
      rows = map (\<lambda>r. map (\<lambda>j. dot r (column (kernel (dense_hstate self)) j)) [0..<units self]) (rows h)\<rparr>"
  have 1: "Dense_call (dense_input self) x = Inr ?xw"
    using assms a by (simp add: Dense_call_ok built_for_def)
  have 2: "Dense_call (dense_hstate self) h = Inr ?hw"
    using assms a by (simp add: Dense_call_ok built_for_def)
  from a tf_add_dims [of ?xw ?hw]
  obtain s where s: "tf_add ?xw ?hw = Inr s" "dim0 s = broadcast_dim (dim0 x) (dim0 h)"
      "dim1 s = units self"
    by auto
  from assms s tf_add_row_dims [of s "bias self"]
  obtain y where y: "tf_add s (as_row (bias self)) = Inr y" "dim0 y = dim0 s" "dim1 y = dim1 s"
    by (auto simp: built_for_def)
  show "\<exists>y. CustomSimpleRNNCell_call self x h training = Inr y \<and>
            dim0 y = broadcast_dim (dim0 x) (dim0 h) \<and> dim1 y = units self"
    unfolding CustomSimpleRNNCell_call_def 1 2 sum.case s(1) y(1)
    using s y by (simp add: tf_tanh_def)
qed

theorem cell_call_shape_errors_witness:
  "built_for demo_cell 3 \<and>
   CustomSimpleRNNCell_call demo_cell \<lparr>dim0 = 1, dim1 = 2, rows = [[1, 2]]\<rparr>
     \<lparr>dim0 = 1, dim1 = 2, rows = [[4, 5]]\<rparr> False = Inl ValueError \<and>
   CustomSimpleRNNCell_call demo_cell \<lparr>dim0 = 2, dim1 = 3, rows = [[1, 2, 3], [0, 1, 0]]\<rparr>
     \<lparr>dim0 = 3, dim1 = 2, rows = [[4, 5], [6, 7], [8, 9]]\<rparr> False = Inl InvalidArgumentError \<and>
   (\<exists>y. CustomSimpleRNNCell_call demo_cell \<lparr>dim0 = 1, dim1 = 3, rows = [[1, 2, 3]]\<rparr>
          \<lparr>dim0 = 1, dim1 = 2, rows = [[4, 5]]\<rparr> False = Inr y \<and> dim0 y = 1 \<and> dim1 y = 2)"
proof -
  have b: "built_for demo_cell 3"
    by (simp add: built_for_def demo_cell_def wf2_def)
  have u: "units demo_cell = 2"
    by (simp add: demo_cell_def)
  show ?thesis
    using b
      cell_call_shape_errors [OF b, of "\<lparr>dim0 = 1, dim1 = 2, rows = [[1, 2]]\<rparr>"
        "\<lparr>dim0 = 1, dim1 = 2, rows = [[4, 5]]\<rparr>" False]
      cell_call_shape_errors [OF b, of "\<lparr>dim0 = 2, dim1 = 3, rows = [[1, 2, 3], [0, 1, 0]]\<rparr>"
        "\<lparr>dim0 = 3, dim1 = 2, rows = [[4, 5], [6, 7], [8, 9]]\<rparr>" False]
      cell_call_shape_errors [OF b, of "\<lparr>dim0 = 1, dim1 = 3, rows = [[1, 2, 3]]\<rparr>"
        "\<lparr>dim0 = 1, dim1 = 2, rows = [[4, 5]]\<rparr>" False]
    by (simp add: u compatible_def broadcast_dim_def)
qed

section \<open>The sequence driver\<close>

subsection \<open>The loop\<close>

lemma cell_call_training:
  "CustomSimpleRNNCell_call c x h training = CustomSimpleRNNCell_call c x h training'"
  by (simp add: CustomSimpleRNNCell_call_def)

lemma slice_step_in_range: "t < steps d \<Longrightarrow> slice_step d t = Inr (step_input d t)"
  by (simp add: slice_step_def step_input_def)

text \<open>
  With \<open>return_sequences = False\<close> the loop is the successive application of the step
  function that the specification describes.
\<close>

lemma loop_last_state:
  assumes "\<not> return_sequences self" "\<forall>t\<in>set ts. t < steps d"
  shows "RNNWrapper_loop self d training ts s hs =
     (case spec_states (cell self) s (map (step_input d) ts) of
        Inl e \<Rightarrow> Inl e
      | Inr ss \<Rightarrow> Inr (last (s # ss), hs))"
  using assms
proof (induction ts arbitrary: s)
  case Nil
  then show ?case by simp
next
  case (Cons t ts)
  have call: "CustomSimpleRNNCell_call (cell self) (step_input d t) s training =
              CustomSimpleRNNCell_call (cell self) (step_input d t) s False"
    by (rule cell_call_training)
  show ?case
  proof (cases "CustomSimpleRNNCell_call (cell self) (step_input d t) s False")
    case (Inl e)
    with Cons.prems call show ?thesis by (simp add: slice_step_in_range)
  next
    case (Inr s')
    with Cons.prems call Cons.IH [of s'] show ?thesis
      by (simp add: slice_step_in_range split: sum.splits)
  qed
qed

lemma RNNWrapper_call_last_state:
  assumes "\<not> return_sequences self"
  shows "RNNWrapper_call self d training = spec_driver (cell self) None d False"
  using assms loop_last_state [of self "[0..<steps d]" d training]
  by (simp add: RNNWrapper_call_def spec_driver_def Let_def split: sum.splits)

text \<open>
  With \<open>return_sequences = True\<close> the first iteration ends in an exception, and a
  sequence of no steps leaves nothing that could be transposed: the call never returns.
\<close>

lemma loop_return_sequences:
  assumes "return_sequences self" "ts \<noteq> []"
  shows "\<exists>e. RNNWrapper_loop self d training ts s hs = Inl e"
  using assms by (cases ts) (auto simp: TensorArray_append_def split: sum.splits)

lemma return_sequences_never_returns:
  assumes "return_sequences self"
  shows "\<exists>e. RNNWrapper_call self d training = Inl e"
proof (cases "steps d = 0")
  case True
  with assms show ?thesis
    by (simp add: RNNWrapper_call_def TensorArray_new_def stack_transposed_def)
next
  case False
  then have "[0..<steps d] \<noteq> []" by simp
  from loop_return_sequences [OF assms this]
  obtain e where "RNNWrapper_loop self d training [0..<steps d]
      (tf_zeros (batch d) (units (cell self))) (TensorArray_new (steps d)) = Inl e"
    by blast
  then show ?thesis
    by (simp add: RNNWrapper_call_def Let_def)
qed

lemma loop_training:
  "RNNWrapper_loop self d training ts s hs = RNNWrapper_loop self d training' ts s hs"
proof (induction ts arbitrary: s hs)
  case Nil
  show ?case by simp
next
  case (Cons t ts)
  show ?case
    using Cons.IH cell_call_training [of "cell self" _ s training training']
    by (simp split: sum.splits)
qed

lemma RNNWrapper_call_training:
  "RNNWrapper_call self d training = RNNWrapper_call self d training'"
  using loop_training [of self d training _ _ _ training']
  by (simp add: RNNWrapper_call_def)

subsection \<open>Returning all states\<close>

text \<open>
  Claim C2. In "return final state only" mode the driver returns the state obtained by
  applying the step function to the time steps \<open>0\<close> to \<open>T - 1\<close> in order, starting from the
  initial state, and in "return all states" mode it returns the sequence of all \<open>T\<close>
  states. The first half is \<open>RNNWrapper_call_last_state\<close>. The second half fails: on a
  batch of one sequence of two steps, \<open>RNNWrapper.call\<close> with \<open>return_sequences = True\<close>
  raises \<open>AttributeError\<close> at \<open>hidden_states.append(state)\<close> in its first iteration,
  where the driver of the specification returns the two states.
\<close>

theorem return_sequences_raises:
  "RNNWrapper_call \<lparr>return_sequences = True, cell = demo_cell\<rparr> demo_data False
     = Inl AttributeError \<and>
   spec_driver demo_cell None demo_data True
     = Inr (AllStates \<lparr>batch = 1, steps = 2, feat = 2,
          seqs = [[[f32_tanh 4, f32_tanh 6],
                   [f32_tanh (f32_tanh 6), f32_tanh (2 + f32_tanh 4)]]]\<rparr>)"
  by (simp add: eval_defs spec_driver_def step_input_def demo_cell_def demo_data_def add.commute)

text \<open>
  Claim C3. The last element of the output in "return all states" mode equals the
  output in "return final state only" mode. On a batch of two sequences of two steps
  the second mode returns the last state, and the first mode returns no output that
  could have a last element: it raises \<open>AttributeError\<close>.
\<close>

theorem last_state_but_no_sequence:
  "RNNWrapper_call \<lparr>return_sequences = False, cell = demo_cell\<rparr> demo_other False
     = Inr (LastState \<lparr>dim0 = 2, dim1 = 2,
          rows = [[f32_tanh (2 + f32_tanh 2), f32_tanh (3 + f32_tanh 1)],
                  [f32_tanh (f32_tanh 1), f32_tanh (4 + f32_tanh 2)]]\<rparr>) \<and>
   RNNWrapper_call \<lparr>return_sequences = True, cell = demo_cell\<rparr> demo_other False
     = Inl AttributeError"
  by (simp add: eval_defs demo_cell_def demo_other_def add.commute)

subsection \<open>Repeated calls\<close>

text \<open>
  Claim C9, as stated: the driver accepts an initial state that defaults to the zero
  vector, and every call starts the recurrence from the supplied initial state. It does
  not: \<open>RNNWrapper.call\<close> has no such argument and starts from zeros. For the state
  \<open>(0, 1)\<close> and one time step, the driver of the specification returns
  \<open>(tanh 1, tanh 1)\<close> and the code returns \<open>(0, tanh 1)\<close>.
\<close>

theorem supplied_state_ignored:
  "RNNWrapper_call \<lparr>return_sequences = False, cell = demo_cell\<rparr> demo_still False
     = Inr (LastState \<lparr>dim0 = 1, dim1 = 2, rows = [[0, f32_tanh 1]]\<rparr>) \<and>
   spec_driver demo_cell (Some demo_state) demo_still False
     = Inr (LastState \<lparr>dim0 = 1, dim1 = 2, rows = [[f32_tanh 1, f32_tanh 1]]\<rparr>) \<and>
   RNNWrapper_call \<lparr>return_sequences = False, cell = demo_cell\<rparr> demo_still False
     \<noteq> spec_driver demo_cell (Some demo_state) demo_still False"
  by (simp add: eval_defs spec_driver_def step_input_def demo_cell_def demo_still_def
      demo_state_def)

text \<open>
  Claim C9, amended: the driver takes no initial state. Every call that returns the
  final state starts the recurrence from the zero state of \<open>batch\<close> rows and \<open>units\<close>
  entries, and no state persists between calls: a call made after another call returns
  what it would have returned without it, and leaves the layer as it was.
\<close>

theorem call_starts_from_zeros:
  "(\<not> return_sequences self \<longrightarrow>
      RNNWrapper_call self data training = spec_driver (cell self) None data False) \<and>
   RNNWrapper_invoke (snd (RNNWrapper_invoke self data training)) data' training'
     = RNNWrapper_invoke self data' training'"
  by (simp add: RNNWrapper_call_last_state RNNWrapper_invoke_def)

theorem call_starts_from_zeros_witness:
  "\<not> return_sequences \<lparr>return_sequences = False, cell = demo_cell\<rparr> \<and>
   spec_driver demo_cell None demo_still False
     = Inr (LastState \<lparr>dim0 = 1, dim1 = 2, rows = [[0, f32_tanh 1]]\<rparr>) \<and>
   RNNWrapper_call \<lparr>return_sequences = False, cell = demo_cell\<rparr> demo_still False
     = spec_driver demo_cell None demo_still False"
  using call_starts_from_zeros [of "\<lparr>return_sequences = False, cell = demo_cell\<rparr>" demo_still False]
  by (simp add: eval_defs spec_driver_def step_input_def demo_cell_def demo_still_def)

section \<open>Zero weights\<close>

lemma dot_zeros: "list_all finite_f32 r \<Longrightarrow> dot r (replicate n 0) = 0"
proof (induction r arbitrary: n)
  case Nil
  show ?case by (simp add: dot_def)
next
  case (Cons a r)
  then show ?case by (cases n) (simp_all add: dot_def finite_mult_zero)
qed

lemma column_zeros: "j < n \<Longrightarrow> column (tf_zeros m n) j = replicate m 0"
  by (simp add: column_def tf_zeros_def map_replicate_const)

lemma matmul_zeros_row:
  assumes "list_all finite_f32 r"
  shows "map (\<lambda>j. dot r (column (tf_zeros m n) j)) [0..<n] = replicate n 0"
proof -
  have "map (\<lambda>j. dot r (column (tf_zeros m n) j)) [0..<n] = map (\<lambda>j. 0) [0..<n]"
    using assms by (intro map_cong refl) (simp add: column_zeros dot_zeros)
  then show ?thesis by (simp add: map_replicate_const)
qed

lemma matmul_zeros:
  assumes "finite2 x"
  shows "map (\<lambda>r. map (\<lambda>j. dot r (column (tf_zeros m n) j)) [0..<n]) (rows x)
           = replicate (length (rows x)) (replicate n 0)"
proof -
  have "map (\<lambda>r. map (\<lambda>j. dot r (column (tf_zeros m n) j)) [0..<n]) (rows x)
          = map (\<lambda>r. replicate n 0) (rows x)"
    using assms by (intro map_cong refl) (simp add: matmul_zeros_row finite2_def list_all_iff)
  then show ?thesis by (simp add: map_replicate_const)
qed

lemma map2_add_zeros:
  "length r = n \<Longrightarrow> map2 (+) r (replicate n (0::f32)) = r"
  by (induction r arbitrary: n) auto

lemma built_for_zero_cell: "built_for (zero_cell d h) d"
  by (simp add: built_for_def zero_cell_def tf_zeros_def wf2_def list_all_iff)

lemma wf2_zeros: "wf2 (tf_zeros b n)"
  by (simp add: tf_zeros_def wf2_def list_all_iff)

lemma finite2_zeros: "finite2 (tf_zeros b n)"
  by (simp add: tf_zeros_def finite2_def list_all_iff finite_f32_def zero_f32_def)

text \<open>
  With zero weights and bias the step function maps finite inputs and a finite state
  to the zero state.
\<close>

lemma zero_cell_call:
  assumes "wf2 x" "dim1 x = d" "wf2 s" "dim1 s = h" "dim0 s = dim0 x"
    and fin: "finite2 x" "finite2 s"
  shows "CustomSimpleRNNCell_call (zero_cell d h) x s training = Inr (tf_zeros (dim0 x) h)"
proof -
  have u: "units (zero_cell d h) = h" by (simp add: zero_cell_def)
  have k: "kernel (dense_input (zero_cell d h)) = tf_zeros d h"
      "kernel (dense_hstate (zero_cell d h)) = tf_zeros h h"
      "bias (zero_cell d h) = replicate h 0"
    by (simp_all add: zero_cell_def)
  have lx: "length (rows x) = dim0 x" and ls: "length (rows s) = dim0 x"
    using assms by (simp_all add: wf2_rows)
  let ?z = "replicate h (0::f32)"
  have r1: "map (\<lambda>r. map (\<lambda>j. dot r (column (tf_zeros d h) j)) [0..<h]) (rows x)
              = replicate (dim0 x) ?z"
    using matmul_zeros [OF fin(1), of d h] by (simp add: lx)
  have r2: "map (\<lambda>r. map (\<lambda>j. dot r (column (tf_zeros h h) j)) [0..<h]) (rows s)
              = replicate (dim0 x) ?z"
    using matmul_zeros [OF fin(2), of h h] by (simp add: ls)
  have r3: "map2 (map2 (+)) (replicate (dim0 x) ?z) (replicate (dim0 x) ?z)
              = replicate (dim0 x) ?z"
    by (simp add: zip_replicate map2_add_zeros)
  have r4: "map (map f32_tanh) (map (\<lambda>r. map2 (+) r ?z) (replicate (dim0 x) ?z))
              = replicate (dim0 x) ?z"
    by (simp add: map2_add_zeros f32_tanh_zero)
  have "CustomSimpleRNNCell_call (zero_cell d h) x s training =
     Inr \<lparr>dim0 = dim0 x, dim1 = h, rows = replicate (dim0 x) ?z\<rparr>"
    using cell_call_rows [OF built_for_zero_cell assms(1,2) assms(3), of h training] assms(4,5)
    unfolding u k r1 r2 r3 r4 by simp
  then show ?thesis by (simp add: tf_zeros_def)
qed

lemma wf2_step_input:
  assumes "wf3 d" "t < steps d"
  shows "wf2 (step_input d t)"
proof -
  have "length (s ! t) = feat d" if "s \<in> set (seqs d)" for s
  proof -
    from assms(1) that have "length s = steps d" and all: "\<forall>v\<in>set s. length v = feat d"
      by (simp_all add: wf3_def list_all_iff)
    with assms(2) have "s ! t \<in> set s" by simp
    with all show ?thesis by blast
  qed
  with assms(1) show ?thesis
    by (simp add: wf2_def step_input_def wf3_def list_all_iff)
qed

lemma finite2_step_input:
  assumes "wf3 d" "finite3 d" "t < steps d"
  shows "finite2 (step_input d t)"
proof -
  have "list_all finite_f32 (s ! t)" if "s \<in> set (seqs d)" for s
  proof -
    from assms(1) that have "length s = steps d"
      by (simp add: wf3_def list_all_iff)
    with assms(3) have "s ! t \<in> set s" by simp
    with assms(2) that show ?thesis
      by (simp add: finite3_def list_all_iff)
  qed
  then show ?thesis
    by (simp add: finite2_def step_input_def list_all_iff)
qed

lemma dims_step_input [simp]:
  "dim0 (step_input d t) = batch d" "dim1 (step_input d t) = feat d"
  by (simp_all add: step_input_def)

lemma dims_zeros [simp]: "dim0 (tf_zeros b n) = b" "dim1 (tf_zeros b n) = n"
  by (simp_all add: tf_zeros_def)

lemma spec_states_zero_cell:
  assumes "wf2 s" "dim1 s = h" "dim0 s = b" "finite2 s"
    and "\<forall>x\<in>set xs. wf2 x \<and> dim1 x = d \<and> dim0 x = b \<and> finite2 x"
  shows "spec_states (zero_cell d h) s xs = Inr (replicate (length xs) (tf_zeros b h))"
  using assms
proof (induction xs arbitrary: s)
  case Nil
  show ?case by simp
next
  case (Cons x xs)
  from Cons.prems(5) have x: "wf2 x" "dim1 x = d" "dim0 x = b" "finite2 x"
    and rest: "\<forall>x\<in>set xs. wf2 x \<and> dim1 x = d \<and> dim0 x = b \<and> finite2 x"
    by simp_all
  have "CustomSimpleRNNCell_call (zero_cell d h) x s False = Inr (tf_zeros (dim0 x) h)"
    using x(1,2) Cons.prems(1,2) _ x(4) Cons.prems(4)
    by (rule zero_cell_call) (simp add: x(3) Cons.prems(3))
  then have step: "CustomSimpleRNNCell_call (zero_cell d h) x s False = Inr (tf_zeros b h)"
    by (simp add: x(3))
  have "spec_states (zero_cell d h) (tf_zeros b h) xs = Inr (replicate (length xs) (tf_zeros b h))"
    using rest by (intro Cons.IH) (simp_all add: wf2_zeros finite2_zeros)
  with step show ?case by simp
qed

lemma state_after_last_state:
  assumes "\<not> return_sequences self" "n \<le> steps d"
  shows "state_after self d training n =
     (case spec_states (cell self) (tf_zeros (batch d) (units (cell self)))
             (map (step_input d) [0..<n]) of
        Inl e \<Rightarrow> Inl e
      | Inr ss \<Rightarrow> Inr (last (tf_zeros (batch d) (units (cell self)) # ss)))"
  using assms loop_last_state [of self "[0..<n]" d training]
  by (simp add: state_after_def split: sum.splits)

lemma zero_states_upto:
  assumes "wf3 data" "finite3 data" "n \<le> steps data"
  shows "spec_states (zero_cell (feat data) h) (tf_zeros (batch data) h)
           (map (step_input data) [0..<n])
         = Inr (replicate n (tf_zeros (batch data) h))"
proof -
  have "\<forall>x\<in>set (map (step_input data) [0..<n]).
          wf2 x \<and> dim1 x = feat data \<and> dim0 x = batch data \<and> finite2 x"
    using assms by (simp add: wf2_step_input finite2_step_input)
  then have "spec_states (zero_cell (feat data) h) (tf_zeros (batch data) h)
           (map (step_input data) [0..<n])
         = Inr (replicate (length (map (step_input data) [0..<n])) (tf_zeros (batch data) h))"
    by (intro spec_states_zero_cell) (simp_all add: wf2_zeros finite2_zeros)
  then show ?thesis by simp
qed

text \<open>
  Claim C6, as stated: with zero weights and bias (for example \<open>H = 3\<close> and \<open>D = 2\<close>)
  every state the driver returns is the zero vector, for every input sequence. It is
  not so for an input that holds an infinity: \<open>inf * 0\<close> is NaN, and on the one-step
  input \<open>(inf, 1)\<close> the driver returns a state of three NaN.
\<close>

theorem infinite_input_gives_nan:
  "RNNWrapper_call \<lparr>return_sequences = False, cell = zero_cell 2 3\<rparr>
     \<lparr>batch = 1, steps = 1, feat = 2, seqs = [[[PosInf, 1]]]\<rparr> False
     = Inr (LastState \<lparr>dim0 = 1, dim1 = 3, rows = [[NaN, NaN, NaN]]\<rparr>) \<and>
   RNNWrapper_call \<lparr>return_sequences = False, cell = zero_cell 2 3\<rparr>
     \<lparr>batch = 1, steps = 1, feat = 2, seqs = [[[PosInf, 1]]]\<rparr> False
     \<noteq> Inr (LastState (tf_zeros 1 3))"
  by (simp add: eval_defs zero_cell_def times_f32_def plus_f32_def f32_tanh_def)

text \<open>
  Claim C6, amended: when both weight matrices and the bias are zero, every state the
  driver returns is the zero vector, for every input sequence of any length whose
  entries are all finite: in the mode that returns the final state the result is the
  zero state, so is the state after each number of steps, and in no mode is anything
  else returned.
\<close>

theorem zero_weights_zero_states:
  assumes "wf3 data" "finite3 data" "feat data = d" "cell self = zero_cell d h"
  shows "(\<not> return_sequences self \<longrightarrow>
            RNNWrapper_call self data training = Inr (LastState (tf_zeros (batch data) h)) \<and>
            (\<forall>n\<le>steps data. state_after self data training n = Inr (tf_zeros (batch data) h))) \<and>
         (\<forall>out. RNNWrapper_call self data training = Inr out \<longrightarrow>
            out = LastState (tf_zeros (batch data) h))"
proof -
  have u: "units (zero_cell d h) = h"
    by (simp add: zero_cell_def)
  have last: "last (tf_zeros (batch data) h # replicate n (tf_zeros (batch data) h))
              = tf_zeros (batch data) h" for n
    by (cases n) simp_all
  have final: "RNNWrapper_call self data training = Inr (LastState (tf_zeros (batch data) h))"
    if "\<not> return_sequences self"
    using that zero_states_upto [OF assms(1,2), of "steps data" h] assms(3,4) last
    by (simp add: RNNWrapper_call_last_state spec_driver_def u Let_def)
  have states: "state_after self data training n = Inr (tf_zeros (batch data) h)"
    if "\<not> return_sequences self" "n \<le> steps data" for n
    using that zero_states_upto [OF assms(1,2), of n h] assms(3,4) last
    by (simp add: state_after_last_state u)
  have any: "out = LastState (tf_zeros (batch data) h)"
    if "RNNWrapper_call self data training = Inr out" for out
  proof (cases "return_sequences self")
    case True
    with return_sequences_never_returns [of self data training] that show ?thesis by auto
  next
    case False
    with final that show ?thesis by simp
  qed
  from final states any show ?thesis by blast
qed

theorem zero_weights_zero_states_witness:
  "wf3 \<lparr>batch = 1, steps = 2, feat = 2, seqs = [[[1, 2], [3, 4]]]\<rparr> \<and>
   finite3 \<lparr>batch = 1, steps = 2, feat = 2, seqs = [[[1, 2], [3, 4]]]\<rparr> \<and>
   RNNWrapper_call \<lparr>return_sequences = False, cell = zero_cell 2 3\<rparr>
     \<lparr>batch = 1, steps = 2, feat = 2, seqs = [[[1, 2], [3, 4]]]\<rparr> False
     = Inr (LastState (tf_zeros 1 3))"
proof -
  let ?d = "\<lparr>batch = 1, steps = 2, feat = 2, seqs = [[[1, 2], [3, 4]]]\<rparr>"
  let ?w = "\<lparr>return_sequences = False, cell = zero_cell 2 3\<rparr>"
  have w: "wf3 ?d"
    by (simp add: wf3_def)
  have fin: "finite3 ?d"
    by (simp add: finite3_def finite_f32_def Finite_numeral one_f32_def)
  have f: "feat ?d = 2" by simp
  have c: "cell ?w = zero_cell 2 3" by simp
  have m: "\<not> return_sequences ?w" by simp
  have b: "batch ?d = 1" by simp
  from zero_weights_zero_states [OF w fin f c, of False]
  have "\<not> return_sequences ?w \<longrightarrow>
          RNNWrapper_call ?w ?d False = Inr (LastState (tf_zeros (batch ?d) 3)) \<and>
          (\<forall>n\<le>steps ?d. state_after ?w ?d False n = Inr (tf_zeros (batch ?d) 3))"
    by (rule conjunct1)
  with m have "RNNWrapper_call ?w ?d False = Inr (LastState (tf_zeros (batch ?d) 3))"
    by blast
  with w fin b show ?thesis
    by simp
qed

section \<open>Sequences of different lengths\<close>

lemma loop_state_cong:
  assumes "\<forall>t\<in>set ts. slice_step d1 t = slice_step d2 t"
  shows "(case RNNWrapper_loop self d1 training ts s hs1 of
            Inl e \<Rightarrow> Inl e | Inr (st, hs) \<Rightarrow> Inr st)
       = (case RNNWrapper_loop self d2 training ts s hs2 of
            Inl e \<Rightarrow> Inl e | Inr (st, hs) \<Rightarrow> Inr st)"
  using assms
proof (induction ts arbitrary: s hs1 hs2)
  case Nil
  show ?case by simp
next
  case (Cons t ts)
  from Cons.prems have eq: "slice_step d1 t = slice_step d2 t"
    and rest: "\<forall>t\<in>set ts. slice_step d1 t = slice_step d2 t"
    by simp_all
  show ?case
  proof (cases "slice_step d2 t")
    case (Inl e)
    with eq show ?thesis by simp
  next
    case (Inr input_t)
    show ?thesis
    proof (cases "CustomSimpleRNNCell_call (cell self) input_t s training")
      case (Inl e)
      with Inr eq show ?thesis by simp
    next
      case (Inr s')
      show ?thesis
      proof (cases "return_sequences self")
        case True
        with \<open>slice_step d2 t = Inr input_t\<close> Inr eq show ?thesis
          by (simp add: TensorArray_append_def)
      next
        case False
        with \<open>slice_step d2 t = Inr input_t\<close> Inr eq Cons.IH [OF rest, of s' hs1 hs2]
        show ?thesis by simp
      qed
    qed
  qed
qed

lemma agree_upto_slices:
  assumes "agree_upto k d1 d2" "t < k"
  shows "slice_step d1 t = slice_step d2 t"
proof -
  have "map (\<lambda>s. s ! t) (seqs d) = map (\<lambda>s. s ! t) (map (take k) (seqs d))" for d :: tensor3
    using assms(2) by simp
  then have "map (\<lambda>s. s ! t) (seqs d1) = map (\<lambda>s. s ! t) (seqs d2)"
    using assms(1) by (simp only: agree_upto_def)
  with assms show ?thesis
    by (simp add: slice_step_def agree_upto_def)
qed

lemma RNNWrapper_call_state_after:
  assumes "\<not> return_sequences self"
  shows "RNNWrapper_call self d training =
     (case state_after self d training (steps d) of
        Inl e \<Rightarrow> Inl e | Inr s \<Rightarrow> Inr (LastState s))"
  using assms
  by (simp add: RNNWrapper_call_def state_after_def Let_def split: sum.splits prod.splits)

lemma state_after_agree:
  assumes "agree_upto k d1 d2" "n \<le> k"
  shows "state_after self d1 training n = state_after self d2 training n"
proof -
  have "\<forall>t\<in>set [0..<n]. slice_step d1 t = slice_step d2 t"
    using assms agree_upto_slices [OF assms(1)] by simp
  from loop_state_cong [OF this] assms(1) show ?thesis
    by (simp add: state_after_def agree_upto_def)
qed

text \<open>
  Claim C7. For two input sequences that agree on their first \<open>k\<close> time steps, one
  being an extension or a truncation of the other, the driver goes through the same
  states at each of the first \<open>k\<close> steps; in particular what it returns for a sequence
  of \<open>k\<close> steps is the state it holds after \<open>k\<close> steps of any longer sequence that
  starts with the same steps.
\<close>

theorem prefix_states:
  assumes "agree_upto k d1 d2"
  shows "(\<forall>n\<le>k. state_after self d1 training n = state_after self d2 training n) \<and>
         (\<not> return_sequences self \<and> steps d1 = k \<longrightarrow>
            RNNWrapper_call self d1 training =
              (case state_after self d2 training k of
                 Inl e \<Rightarrow> Inl e | Inr s \<Rightarrow> Inr (LastState s)))"
  using state_after_agree [OF assms, of _ self training]
    RNNWrapper_call_state_after [of self d1 training]
  by auto

theorem prefix_states_witness:
  "agree_upto 2 demo_data demo_longer \<and>
   state_after \<lparr>return_sequences = False, cell = demo_cell\<rparr> demo_data False 1
     = Inr \<lparr>dim0 = 1, dim1 = 2, rows = [[f32_tanh 4, f32_tanh 6]]\<rparr> \<and>
   state_after \<lparr>return_sequences = False, cell = demo_cell\<rparr> demo_longer False 1
     = Inr \<lparr>dim0 = 1, dim1 = 2, rows = [[f32_tanh 4, f32_tanh 6]]\<rparr> \<and>
   RNNWrapper_call \<lparr>return_sequences = False, cell = demo_cell\<rparr> demo_data False
     = (case state_after \<lparr>return_sequences = False, cell = demo_cell\<rparr> demo_longer False 2 of
          Inl e \<Rightarrow> Inl e | Inr s \<Rightarrow> Inr (LastState s))"
proof -
  let ?w = "\<lparr>return_sequences = False, cell = demo_cell\<rparr>"
  have a: "agree_upto 2 demo_data demo_longer"
    by (simp add: agree_upto_def demo_data_def demo_longer_def)
  have s: "steps demo_data = 2" by (simp add: demo_data_def)
  have v: "state_after ?w demo_data False 1 = Inr \<lparr>dim0 = 1, dim1 = 2, rows = [[f32_tanh 4, f32_tanh 6]]\<rparr>"
    by (simp add: state_after_def eval_defs demo_cell_def demo_data_def)
  from prefix_states [OF a, of ?w False] s
  have 1: "state_after ?w demo_data False 1 = state_after ?w demo_longer False 1"
    and 2: "RNNWrapper_call ?w demo_data False =
       (case state_after ?w demo_longer False 2 of Inl e \<Rightarrow> Inl e | Inr s \<Rightarrow> Inr (LastState s))"
    by simp_all
  from a v 1 2 show ?thesis by simp
qed

section \<open>Batches\<close>

lemma wf2_concat_rows:
  "wf2 a \<Longrightarrow> wf2 b \<Longrightarrow> dim1 a = dim1 b \<Longrightarrow> wf2 (concat_rows a b)"
  by (simp add: wf2_def concat_rows_def)

lemma dims_concat_rows [simp]:
  "dim0 (concat_rows a b) = dim0 a + dim0 b" "dim1 (concat_rows a b) = dim1 a"
  "rows (concat_rows a b) = rows a @ rows b"
  by (simp_all add: concat_rows_def)

lemma zeros_concat: "tf_zeros (a + b) n = concat_rows (tf_zeros a n) (tf_zeros b n)"
  by (simp add: tf_zeros_def concat_rows_def replicate_add)

lemma step_input_concat:
  "step_input (concat_batch d1 d2) t = concat_rows (step_input d1 t) (step_input d2 t)"
  by (simp add: step_input_def concat_batch_def concat_rows_def)

lemma cell_call_concat:
  assumes b: "built_for c d"
    and x1: "wf2 x1" "dim1 x1 = d" and h1: "wf2 h1" "dim1 h1 = units c" "dim0 h1 = dim0 x1"
    and x2: "wf2 x2" "dim1 x2 = d" and h2: "wf2 h2" "dim1 h2 = units c" "dim0 h2 = dim0 x2"
  shows "\<exists>y1 y2. CustomSimpleRNNCell_call c x1 h1 training = Inr y1 \<and>
           CustomSimpleRNNCell_call c x2 h2 training = Inr y2 \<and>
           CustomSimpleRNNCell_call c (concat_rows x1 x2) (concat_rows h1 h2) training
             = Inr (concat_rows y1 y2) \<and>
           wf2 y1 \<and> wf2 y2 \<and> dim0 y1 = dim0 x1 \<and> dim0 y2 = dim0 x2 \<and>
           dim1 y1 = units c \<and> dim1 y2 = units c"
proof -
  let ?f = "\<lambda>r. map (\<lambda>j. dot r (column (kernel (dense_input c)) j)) [0..<units c]"
  let ?g = "\<lambda>r. map (\<lambda>j. dot r (column (kernel (dense_hstate c)) j)) [0..<units c]"
  let ?out = "\<lambda>xs hs. map (map f32_tanh) (map (\<lambda>r. map2 (+) r (bias c))
                 (map2 (map2 (+)) (map ?f xs) (map ?g hs)))"
  let ?y = "\<lambda>x h. \<lparr>dim0 = dim0 x, dim1 = units c, rows = ?out (rows x) (rows h)\<rparr>"
  have l: "length (rows x1) = dim0 x1" "length (rows h1) = dim0 x1"
      "length (rows x2) = dim0 x2" "length (rows h2) = dim0 x2"
    using x1 h1 x2 h2 by (simp_all add: wf2_rows)
  have lb: "length (bias c) = units c"
    using b by (simp add: built_for_def)
  have 1: "CustomSimpleRNNCell_call c x1 h1 training = Inr (?y x1 h1)"
    using b x1 h1 by (rule cell_call_rows)
  have 2: "CustomSimpleRNNCell_call c x2 h2 training = Inr (?y x2 h2)"
    using b x2 h2 by (rule cell_call_rows)
  have wx: "wf2 (concat_rows x1 x2)" and wh: "wf2 (concat_rows h1 h2)"
    using x1 x2 h1 h2 by (simp_all add: wf2_concat_rows)
  have 3: "CustomSimpleRNNCell_call c (concat_rows x1 x2) (concat_rows h1 h2) training
             = Inr (?y (concat_rows x1 x2) (concat_rows h1 h2))"
    using b wx _ wh by (rule cell_call_rows) (simp_all add: x1 h1 h2)
  have split: "?out (rows x1 @ rows x2) (rows h1 @ rows h2)
             = ?out (rows x1) (rows h1) @ ?out (rows x2) (rows h2)"
    using l by simp
  have eq: "?y (concat_rows x1 x2) (concat_rows h1 h2) = concat_rows (?y x1 h1) (?y x2 h2)"
    unfolding concat_rows_def using split by simp
  have w1: "wf2 (?y x1 h1)" and w2: "wf2 (?y x2 h2)"
    using l lb by (simp_all add: wf2_def list_all_length)
  show ?thesis
    using 1 2 3 eq w1 w2 by (intro exI [of _ "?y x1 h1"] exI [of _ "?y x2 h2"]) simp
qed

lemma last_single: "last [x] = x"
  by simp

lemma last_two: "last (x # y # zs) = last (y # zs)"
  by simp

lemma spec_states_concat:
  assumes b: "built_for c d" and len: "length xs1 = length xs2"
    and s1: "wf2 s1" "dim1 s1 = units c" "dim0 s1 = b1"
    and s2: "wf2 s2" "dim1 s2 = units c" "dim0 s2 = b2"
    and xs1: "\<forall>x\<in>set xs1. wf2 x \<and> dim1 x = d \<and> dim0 x = b1"
    and xs2: "\<forall>x\<in>set xs2. wf2 x \<and> dim1 x = d \<and> dim0 x = b2"
  shows "\<exists>ss1 ss2. spec_states c s1 xs1 = Inr ss1 \<and> spec_states c s2 xs2 = Inr ss2 \<and>
           spec_states c (concat_rows s1 s2) (map2 concat_rows xs1 xs2)
             = Inr (map2 concat_rows ss1 ss2) \<and>
           last (concat_rows s1 s2 # map2 concat_rows ss1 ss2)
             = concat_rows (last (s1 # ss1)) (last (s2 # ss2)) \<and>
           dim0 (last (s1 # ss1)) = b1 \<and> dim0 (last (s2 # ss2)) = b2 \<and>
           dim1 (last (s1 # ss1)) = units c \<and> dim1 (last (s2 # ss2)) = units c"
  using len s1 s2 xs1 xs2
proof (induction xs1 xs2 arbitrary: s1 s2 rule: list_induct2)
  case Nil
  then show ?case by (simp del: last.simps add: last_single)
next
  case (Cons x1 xs1 x2 xs2)
  from Cons.prems(7) have x1: "wf2 x1" "dim1 x1 = d" and bx1: "dim0 x1 = b1"
    and rest1: "\<forall>x\<in>set xs1. wf2 x \<and> dim1 x = d \<and> dim0 x = b1"
    by simp_all
  from Cons.prems(8) have x2: "wf2 x2" "dim1 x2 = d" and bx2: "dim0 x2 = b2"
    and rest2: "\<forall>x\<in>set xs2. wf2 x \<and> dim1 x = d \<and> dim0 x = b2"
    by simp_all
  have h1: "dim0 s1 = dim0 x1" and h2: "dim0 s2 = dim0 x2"
    using Cons.prems(3,6) bx1 bx2 by simp_all
  from cell_call_concat [OF b x1 Cons.prems(1,2) h1 x2 Cons.prems(4,5) h2, of False]
  obtain y1 y2 where y: "CustomSimpleRNNCell_call c x1 s1 False = Inr y1"
      "CustomSimpleRNNCell_call c x2 s2 False = Inr y2"
      "CustomSimpleRNNCell_call c (concat_rows x1 x2) (concat_rows s1 s2) False
         = Inr (concat_rows y1 y2)"
    and wy: "wf2 y1" "wf2 y2" "dim0 y1 = dim0 x1" "dim0 y2 = dim0 x2"
      "dim1 y1 = units c" "dim1 y2 = units c"
    by (elim exE conjE) (rule that, assumption+)
  have "\<exists>ss1 ss2. spec_states c y1 xs1 = Inr ss1 \<and> spec_states c y2 xs2 = Inr ss2 \<and>
           spec_states c (concat_rows y1 y2) (map2 concat_rows xs1 xs2)
             = Inr (map2 concat_rows ss1 ss2) \<and>
           last (concat_rows y1 y2 # map2 concat_rows ss1 ss2)
             = concat_rows (last (y1 # ss1)) (last (y2 # ss2)) \<and>
           dim0 (last (y1 # ss1)) = b1 \<and> dim0 (last (y2 # ss2)) = b2 \<and>
           dim1 (last (y1 # ss1)) = units c \<and> dim1 (last (y2 # ss2)) = units c"
    using wy rest1 rest2 bx1 bx2 by (intro Cons.IH) simp_all
  then obtain ss1 ss2 where r: "spec_states c y1 xs1 = Inr ss1" "spec_states c y2 xs2 = Inr ss2"
      "spec_states c (concat_rows y1 y2) (map2 concat_rows xs1 xs2)
         = Inr (map2 concat_rows ss1 ss2)"
      "last (concat_rows y1 y2 # map2 concat_rows ss1 ss2)
         = concat_rows (last (y1 # ss1)) (last (y2 # ss2))"
      "dim0 (last (y1 # ss1)) = b1" "dim0 (last (y2 # ss2)) = b2"
      "dim1 (last (y1 # ss1)) = units c" "dim1 (last (y2 # ss2)) = units c"
    by (elim exE conjE) (rule that, assumption+)
  show ?case
    using y r
    by (intro exI [of _ "y1 # ss1"] exI [of _ "y2 # ss2"]) (simp del: last.simps add: last_two)
qed

lemma step_inputs_concat:
  "map (step_input (concat_batch d1 d2)) ts
     = map2 concat_rows (map (step_input d1) ts) (map (step_input d2) ts)"
  by (induction ts) (simp_all add: step_input_concat)

text \<open>
  In the mode that returns the final state, the driver called once on the
  concatenation of two inputs of equal length and feature length along the batch
  dimension returns, row for row, the states it returns for each input alone; it does
  so for every batch size and every sequence length, with the same built cell.
\<close>

lemma batch_independence:
  assumes "wf3 d1" "wf3 d2" "steps d1 = steps d2" "feat d1 = feat d2"
    and "built_for (cell self) (feat d1)" "\<not> return_sequences self"
  shows "\<exists>s1 s2. RNNWrapper_call self d1 training = Inr (LastState s1) \<and>
           RNNWrapper_call self d2 training = Inr (LastState s2) \<and>
           RNNWrapper_call self (concat_batch d1 d2) training
             = Inr (LastState (concat_rows s1 s2)) \<and>
           dim0 s1 = batch d1 \<and> dim0 s2 = batch d2 \<and>
           dim1 s1 = units (cell self) \<and> dim1 s2 = units (cell self)"
proof -
  let ?c = "cell self" and ?T = "steps d1"
  let ?z1 = "tf_zeros (batch d1) (units ?c)" and ?z2 = "tf_zeros (batch d2) (units ?c)"
  have in1: "\<forall>x\<in>set (map (step_input d1) [0..<?T]). wf2 x \<and> dim1 x = feat d1 \<and> dim0 x = batch d1"
    using assms(1) by (simp add: wf2_step_input)
  have in2: "\<forall>x\<in>set (map (step_input d2) [0..<?T]). wf2 x \<and> dim1 x = feat d1 \<and> dim0 x = batch d2"
    using assms(2,3,4) by (simp add: wf2_step_input)
  have "\<exists>ss1 ss2. spec_states ?c ?z1 (map (step_input d1) [0..<?T]) = Inr ss1 \<and>
      spec_states ?c ?z2 (map (step_input d2) [0..<?T]) = Inr ss2 \<and>
      spec_states ?c (concat_rows ?z1 ?z2)
         (map2 concat_rows (map (step_input d1) [0..<?T]) (map (step_input d2) [0..<?T]))
         = Inr (map2 concat_rows ss1 ss2) \<and>
      last (concat_rows ?z1 ?z2 # map2 concat_rows ss1 ss2)
         = concat_rows (last (?z1 # ss1)) (last (?z2 # ss2)) \<and>
      dim0 (last (?z1 # ss1)) = batch d1 \<and> dim0 (last (?z2 # ss2)) = batch d2 \<and>
      dim1 (last (?z1 # ss1)) = units ?c \<and> dim1 (last (?z2 # ss2)) = units ?c"
    using in1 in2
    by (intro spec_states_concat [OF assms(5)]) (simp_all add: wf2_zeros)
  then obtain ss1 ss2 where r: "spec_states ?c ?z1 (map (step_input d1) [0..<?T]) = Inr ss1"
      "spec_states ?c ?z2 (map (step_input d2) [0..<?T]) = Inr ss2"
      "spec_states ?c (concat_rows ?z1 ?z2)
         (map2 concat_rows (map (step_input d1) [0..<?T]) (map (step_input d2) [0..<?T]))
         = Inr (map2 concat_rows ss1 ss2)"
      "last (concat_rows ?z1 ?z2 # map2 concat_rows ss1 ss2)
         = concat_rows (last (?z1 # ss1)) (last (?z2 # ss2))"
      "dim0 (last (?z1 # ss1)) = batch d1" "dim0 (last (?z2 # ss2)) = batch d2"
      "dim1 (last (?z1 # ss1)) = units ?c" "dim1 (last (?z2 # ss2)) = units ?c"
    by blast
  have c1: "RNNWrapper_call self d1 training = Inr (LastState (last (?z1 # ss1)))"
    using assms(6) r(1) by (simp add: RNNWrapper_call_last_state spec_driver_def Let_def)
  have c2: "RNNWrapper_call self d2 training = Inr (LastState (last (?z2 # ss2)))"
    using assms(6,3) r(2) by (simp add: RNNWrapper_call_last_state spec_driver_def Let_def)
  have shape: "batch (concat_batch d1 d2) = batch d1 + batch d2"
      "steps (concat_batch d1 d2) = ?T"
    by (simp_all add: concat_batch_def)
  have c3: "RNNWrapper_call self (concat_batch d1 d2) training
              = Inr (LastState (concat_rows (last (?z1 # ss1)) (last (?z2 # ss2))))"
    using assms(6) r(3,4)
    by (simp add: RNNWrapper_call_last_state spec_driver_def Let_def shape zeros_concat
        step_inputs_concat)
  from c1 c2 c3 r(5-8) show ?thesis by blast
qed

lemma batch_independence_sample:
  "wf3 demo_data \<and> wf3 demo_other \<and> steps demo_data = steps demo_other \<and>
   feat demo_data = feat demo_other \<and> built_for demo_cell (feat demo_data) \<and>
   RNNWrapper_call \<lparr>return_sequences = False, cell = demo_cell\<rparr>
       (concat_batch demo_data demo_other) False
     = Inr (LastState \<lparr>dim0 = 3, dim1 = 2,
          rows = [[f32_tanh (f32_tanh 6), f32_tanh (2 + f32_tanh 4)],
                  [f32_tanh (2 + f32_tanh 2), f32_tanh (3 + f32_tanh 1)],
                  [f32_tanh (f32_tanh 1), f32_tanh (4 + f32_tanh 2)]]\<rparr>)"
proof -
  let ?w = "\<lparr>return_sequences = False, cell = demo_cell\<rparr>"
  have w1: "wf3 demo_data" and w2: "wf3 demo_other"
    by (simp_all add: wf3_def demo_data_def demo_other_def)
  have st: "steps demo_data = steps demo_other" and ft: "feat demo_data = feat demo_other"
    by (simp_all add: demo_data_def demo_other_def)
  have b: "built_for demo_cell (feat demo_data)"
    by (simp add: built_for_def demo_cell_def demo_data_def wf2_def)
  have b': "built_for (cell ?w) (feat demo_data)"
    using b by simp
  have m: "\<not> return_sequences ?w" by simp
  have e1: "RNNWrapper_call ?w demo_data False
      = Inr (LastState \<lparr>dim0 = 1, dim1 = 2, rows = [[f32_tanh (f32_tanh 6), f32_tanh (2 + f32_tanh 4)]]\<rparr>)"
    by (simp add: eval_defs demo_cell_def demo_data_def add.commute)
  have e2: "RNNWrapper_call ?w demo_other False
      = Inr (LastState \<lparr>dim0 = 2, dim1 = 2,
          rows = [[f32_tanh (2 + f32_tanh 2), f32_tanh (3 + f32_tanh 1)],
                  [f32_tanh (f32_tanh 1), f32_tanh (4 + f32_tanh 2)]]\<rparr>)"
    by (simp add: eval_defs demo_cell_def demo_other_def add.commute)
  from batch_independence [OF w1 w2 st ft b' m, of False] e1 e2
  have "RNNWrapper_call ?w (concat_batch demo_data demo_other) False
     = Inr (LastState (concat_rows
          \<lparr>dim0 = 1, dim1 = 2, rows = [[f32_tanh (f32_tanh 6), f32_tanh (2 + f32_tanh 4)]]\<rparr>
          \<lparr>dim0 = 2, dim1 = 2,
            rows = [[f32_tanh (2 + f32_tanh 2), f32_tanh (3 + f32_tanh 1)],
                  [f32_tanh (f32_tanh 1), f32_tanh (4 + f32_tanh 2)]]\<rparr>))"
    by auto
  then show ?thesis
    using w1 w2 st ft b by (simp add: concat_rows_def)
qed

text \<open>
  Claim C8. For two input sequences of equal length, the driver called once on their
  concatenation along the batch dimension yields, for each batch element, the states
  of the driver on that sequence alone, for any batch size and any sequence length.
  With \<open>return_sequences = False\<close> this is \<open>batch_independence\<close>. With
  \<open>return_sequences = True\<close> it fails: on the concatenation of a batch of one and a
  batch of two sequences of two steps, \<open>RNNWrapper.call\<close> raises \<open>AttributeError\<close> at
  \<open>hidden_states.append(state)\<close> in its first iteration, where the driver of the
  specification returns the two states of each of the three sequences.
\<close>

theorem batch_of_sequences_raises:
  "RNNWrapper_call \<lparr>return_sequences = True, cell = demo_cell\<rparr>
       (concat_batch demo_data demo_other) False
     = Inl AttributeError \<and>
   spec_driver demo_cell None (concat_batch demo_data demo_other) True
     = Inr (AllStates \<lparr>batch = 3, steps = 2, feat = 2,
          seqs = [[[f32_tanh 4, f32_tanh 6],
                   [f32_tanh (f32_tanh 6), f32_tanh (2 + f32_tanh 4)]],
                  [[f32_tanh 1, f32_tanh 2],
                   [f32_tanh (2 + f32_tanh 2), f32_tanh (3 + f32_tanh 1)]],
                  [[f32_tanh 2, f32_tanh 1],
                   [f32_tanh (f32_tanh 1), f32_tanh (4 + f32_tanh 2)]]]\<rparr>)"
  by (simp add: eval_defs spec_driver_def step_input_def concat_batch_def demo_cell_def
      demo_data_def demo_other_def add.commute)

section \<open>Exceptions in the layer composition\<close>

text \<open>
  An exception that leaves the loop was raised by an invocation without the flag.
\<close>

lemma loop_error_origin:
  "fst (CompositeLayer_loop layers x training \<sigma>) = Inl e \<Longrightarrow>
   \<exists>layer\<in>set layers. \<exists>x' \<sigma>'. fst (layer x' None \<sigma>') = Inl e"
proof (induction layers arbitrary: x \<sigma>)
  case Nil
  then show ?case by simp
next
  case (Cons layer rest)
  obtain r \<sigma>1 where first: "layer x (Some training) \<sigma> = (r, \<sigma>1)"
    by (cases "layer x (Some training) \<sigma>")
  show ?case
  proof (cases r)
    case (Inr x1)
    with first Cons.prems have "fst (CompositeLayer_loop rest x1 training \<sigma>1) = Inl e"
      by simp
    from Cons.IH [OF this] show ?thesis by auto
  next
    case (Inl e1)
    obtain r2 \<sigma>2 where second: "layer x None \<sigma>1 = (r2, \<sigma>2)"
      by (cases "layer x None \<sigma>1")
    show ?thesis
    proof (cases r2)
      case (Inr x2)
      with first Inl second Cons.prems
      have "fst (CompositeLayer_loop rest x2 training \<sigma>2) = Inl e"
        by simp
      from Cons.IH [OF this] show ?thesis by auto
    next
      case (Inl e2)
      with first \<open>r = Inl e1\<close> second Cons.prems have "e2 = e" by simp
      with second Inl have "fst (layer x None \<sigma>1) = Inl e" by simp
      then show ?thesis by auto
    qed
  qed
qed

text \<open>
  Claim C10. \<open>CompositeLayer.call\<close> first invokes each layer with the data and the
  training flag. If that invocation raises, whatever the exception, the exception is
  discarded and the layer is invoked once more with the data only, in the state the
  failed attempt left; if it returns, the loop goes on with its result. So an error
  raised in a layer that does take the flag is masked, and every exception that reaches
  the caller comes from an invocation without the flag.
\<close>

theorem composite_masks_errors:
  "(layer x (Some training) \<sigma> = (Inl e, \<sigma>') \<longrightarrow>
      CompositeLayer_loop (layer # rest) x training \<sigma> =
        (case layer x None \<sigma>' of
           (Inr x', \<sigma>'') \<Rightarrow> CompositeLayer_loop rest x' training \<sigma>''
         | (Inl e', \<sigma>'') \<Rightarrow> (Inl e', \<sigma>''))) \<and>
   (layer x (Some training) \<sigma> = (Inr y, \<sigma>') \<longrightarrow>
      CompositeLayer_loop (layer # rest) x training \<sigma> = CompositeLayer_loop rest y training \<sigma>') \<and>
   (fst (CompositeLayer_call self x training \<sigma>) = Inl e \<longrightarrow>
      (\<exists>layer\<in>set (layer_list self). \<exists>x' \<sigma>'. fst (layer x' None \<sigma>') = Inl e))"
  using loop_error_origin [where layers = "layer_list self" and x = x and training = training
      and \<sigma> = \<sigma> and e = e]
  by (simp add: CompositeLayer_call_def)

theorem composite_masks_errors_witness:
  "moody_layer 3 (Some True) [] = (Inl (Failure ''training''), [WithFlag ''moody'']) \<and>
   CompositeLayer_call \<lparr>layer_list = [moody_layer, plain_layer]\<rparr> 3 True []
     = (Inr 8, [WithFlag ''moody'', WithoutFlag ''moody'',
                WithFlag ''plain'', WithoutFlag ''plain'']) \<and>
   plain_layer 4 (Some True) [] = (Inl TypeError, [WithFlag ''plain'']) \<and>
   moody_layer 3 (Some False) [] = (Inr 4, [WithFlag ''moody'']) \<and>
   CompositeLayer_call \<lparr>layer_list = [moody_layer, broken_layer]\<rparr> 3 False []
     = (Inl (Failure ''second''), [WithFlag ''moody'', WithFlag ''broken'',
                WithoutFlag ''broken''])"
  using composite_masks_errors [where layer = moody_layer and x = 3 and training = True
      and \<sigma> = "[]" and e = "Failure ''training''" and \<sigma>' = "[WithFlag ''moody'']"
      and rest = "[plain_layer]"]
    composite_masks_errors [where layer = moody_layer and x = 3 and training = False
      and \<sigma> = "[]" and y = 4 and \<sigma>' = "[WithFlag ''moody'']" and rest = "[broken_layer]"
      and self = "\<lparr>layer_list = [moody_layer, broken_layer]\<rparr>" and e = "Failure ''second''"]
  by (simp add: CompositeLayer_call_def moody_layer_def plain_layer_def broken_layer_def
      log_call_def)

end
